theory Spec2Isabelle
  imports Complex_Main
begin

section \<open>The runtime the package runs on: ECMAScript time values\<close>

text \<open>
  The package \<open>libs/database\<close> consists of \<open>timezone.ts\<close> (five small functions over
  the built-in \<open>Date\<close>) and \<open>index.ts\<close> (a connection pool with a connect handler).
  Every function delegates to the JavaScript runtime, so the runtime's own algorithms
  are written out first, under the names the ECMAScript language specification gives
  them. A time value is a number of milliseconds since 1970-01-01T00:00:00Z; the
  calendar is the proleptic Gregorian one.
\<close>

definition msPerDay :: int where "msPerDay = 86400000"
definition msPerHour :: int where "msPerHour = 3600000"
definition msPerMinute :: int where "msPerMinute = 60000"
definition msPerSecond :: int where "msPerSecond = 1000"

definition Day :: "int \<Rightarrow> int" where
  "Day t = t div msPerDay"

definition TimeWithinDay :: "int \<Rightarrow> int" where
  "TimeWithinDay t = t mod msPerDay"

definition DaysInYear :: "int \<Rightarrow> int" where
  "DaysInYear y =
     (if y mod 4 \<noteq> 0 then 365
      else if y mod 100 \<noteq> 0 then 366
      else if y mod 400 \<noteq> 0 then 365
      else 366)"

definition DayFromYear :: "int \<Rightarrow> int" where
  "DayFromYear y =
     365 * (y - 1970) + (y - 1969) div 4 - (y - 1901) div 100 + (y - 1601) div 400"

text \<open>
  \<open>YearFromTime t\<close> is the largest year whose first day is not after \<open>t\<close>. The mean
  Gregorian year has 146097/400 days, so the estimate \<open>y0\<close> is off by at most one, and
  the two comparisons repair it (lemma \<open>YearFromDay_bounds\<close> below).
\<close>

definition YearFromDay :: "int \<Rightarrow> int" where
  "YearFromDay d =
     (let y0 = 1970 + (400 * d) div 146097
      in if d < DayFromYear y0 then y0 - 1
         else if DayFromYear (y0 + 1) \<le> d then y0 + 1
         else y0)"

definition YearFromTime :: "int \<Rightarrow> int" where
  "YearFromTime t = YearFromDay (Day t)"

definition InLeapYear :: "int \<Rightarrow> int" where
  "InLeapYear t = (if DaysInYear (YearFromTime t) = 366 then 1 else 0)"

definition DayWithinYear :: "int \<Rightarrow> int" where
  "DayWithinYear t = Day t - DayFromYear (YearFromTime t)"

text \<open>Months are numbered from 0 (January) to 11 (December), as in the language.\<close>

definition MonthFromTime :: "int \<Rightarrow> int" where
  "MonthFromTime t =
     (let d = DayWithinYear t; l = InLeapYear t
      in if d < 31 then 0
         else if d < 59 + l then 1
         else if d < 90 + l then 2
         else if d < 120 + l then 3
         else if d < 151 + l then 4
         else if d < 181 + l then 5
         else if d < 212 + l then 6
         else if d < 243 + l then 7
         else if d < 273 + l then 8
         else if d < 304 + l then 9
         else if d < 334 + l then 10
         else 11)"

definition DateFromTime :: "int \<Rightarrow> int" where
  "DateFromTime t =
     (let d = DayWithinYear t; l = InLeapYear t; m = MonthFromTime t
      in if m = 0 then d + 1
         else if m = 1 then d - 30
         else if m = 2 then d - 58 - l
         else if m = 3 then d - 89 - l
         else if m = 4 then d - 119 - l
         else if m = 5 then d - 150 - l
         else if m = 6 then d - 180 - l
         else if m = 7 then d - 211 - l
         else if m = 8 then d - 242 - l
         else if m = 9 then d - 272 - l
         else if m = 10 then d - 303 - l
         else d - 333 - l)"

text \<open>0 is Sunday; 1970-01-01 was a Thursday.\<close>

definition WeekDay :: "int \<Rightarrow> int" where
  "WeekDay t = (Day t + 4) mod 7"

definition HourFromTime :: "int \<Rightarrow> int" where
  "HourFromTime t = (t div msPerHour) mod 24"

definition MinFromTime :: "int \<Rightarrow> int" where
  "MinFromTime t = (t div msPerMinute) mod 60"

definition SecFromTime :: "int \<Rightarrow> int" where
  "SecFromTime t = (t div msPerSecond) mod 60"

definition MakeTime :: "int \<Rightarrow> int \<Rightarrow> int \<Rightarrow> int \<Rightarrow> int" where
  "MakeTime h m s milli = h * msPerHour + m * msPerMinute + s * msPerSecond + milli"

definition DaysBeforeMonth :: "int \<Rightarrow> int \<Rightarrow> int" where
  "DaysBeforeMonth y mn =
     (let l = (if DaysInYear y = 366 then 1 else 0)
      in if mn = 0 then 0
         else if mn = 1 then 31
         else if mn = 2 then 59 + l
         else if mn = 3 then 90 + l
         else if mn = 4 then 120 + l
         else if mn = 5 then 151 + l
         else if mn = 6 then 181 + l
         else if mn = 7 then 212 + l
         else if mn = 8 then 243 + l
         else if mn = 9 then 273 + l
         else if mn = 10 then 304 + l
         else 334 + l)"

text \<open>
  \<open>MakeDay year month date\<close> is the day number of the given calendar day; a month
  outside 0..11 carries into the year.
\<close>

definition MakeDay :: "int \<Rightarrow> int \<Rightarrow> int \<Rightarrow> int" where
  "MakeDay year month date =
     (let ym = year + month div 12; mn = month mod 12
      in DayFromYear ym + DaysBeforeMonth ym mn + date - 1)"

definition MakeDate :: "int \<Rightarrow> int \<Rightarrow> int" where
  "MakeDate day time = day * msPerDay + time"

text \<open>The two-digit-year rule of the multi-argument \<open>Date\<close> constructor.\<close>

definition MakeFullYear :: "int \<Rightarrow> int" where
  "MakeFullYear y = (if 0 \<le> y \<and> y \<le> 99 then 1900 + y else y)"

text \<open>A time value outside \<open>\<plusminus>8.64e15\<close> is not a time: \<open>None\<close> stands for \<open>NaN\<close>.\<close>

definition TimeClip :: "int \<Rightarrow> int option" where
  "TimeClip t = (if \<bar>t\<bar> > 8640000000000000 then None else Some t)"


subsection \<open>The process: clock, host time zone, environment\<close>

text \<open>
  What a running Node process reads from outside the program: the system clock, the
  host's time zone (\<open>LocalTZA t isUTC\<close> of the language specification: the offset of
  local time from UTC in milliseconds, at the UTC time value \<open>t\<close> when \<open>isUTC\<close>
  holds and at the local time value \<open>t\<close> otherwise), and the environment variable
  \<open>TZ\<close> (\<open>None\<close> when it is not set).
\<close>

record world =
  now :: int
  LocalTZA :: "int \<Rightarrow> bool \<Rightarrow> int"
  env_TZ :: "string option"

definition LocalTime :: "world \<Rightarrow> int \<Rightarrow> int" where
  "LocalTime W t = t + LocalTZA W t True"

definition UTC :: "world \<Rightarrow> int \<Rightarrow> int" where
  "UTC W t = t - LocalTZA W t False"

subsection \<open>Date objects and numbers\<close>

text \<open>
  A \<open>Date\<close> holds a time value or \<open>NaN\<close> (an invalid date): \<open>None\<close> is \<open>NaN\<close>.
  The functions of the package read their \<open>Date\<close> argument through its getters, so
  they are first written as functions of the value it holds; further down they are
  written as calls on objects in a heap. A number is a rational or \<open>NaN\<close>.
\<close>

type_synonym Date = "int option"
type_synonym number = "rat option"

text \<open>\<open>new Date()\<close>\<close>

definition new_Date :: "world \<Rightarrow> Date" where
  "new_Date W = Some (now W)"

text \<open>\<open>new Date(year, month, date)\<close>: local midnight of that calendar day.\<close>

definition new_Date_ymd :: "world \<Rightarrow> int option \<Rightarrow> int \<Rightarrow> int \<Rightarrow> Date" where
  "new_Date_ymd W year month date =
     (case year of
        None \<Rightarrow> None
      | Some y \<Rightarrow>
          TimeClip (UTC W (MakeDate (MakeDay (MakeFullYear y) month date) (MakeTime 0 0 0 0))))"

definition getFullYear :: "world \<Rightarrow> Date \<Rightarrow> int option" where
  "getFullYear W d = (case d of None \<Rightarrow> None | Some t \<Rightarrow> Some (YearFromTime (LocalTime W t)))"

text \<open>
  \<open>getTimezoneOffset\<close> gives the minutes from local time to UTC. The runtime keeps
  whole minutes: the quotient of the two millisecond values, rounded toward zero.
\<close>

definition quotient_toward_zero :: "int \<Rightarrow> int \<Rightarrow> int" where
  "quotient_toward_zero a b = (if 0 \<le> a then a div b else - ((- a) div b))"

definition getTimezoneOffset :: "world \<Rightarrow> Date \<Rightarrow> number" where
  "getTimezoneOffset W d =
     (case d of
        None \<Rightarrow> None
      | Some t \<Rightarrow> Some (of_int (quotient_toward_zero (t - LocalTime W t) msPerMinute)))"

definition Math_max :: "number \<Rightarrow> number \<Rightarrow> number" where
  "Math_max a b =
     (case a of None \<Rightarrow> None | Some x \<Rightarrow> (case b of None \<Rightarrow> None | Some y \<Rightarrow> Some (max x y)))"

text \<open>The operator \<open><\<close> on numbers: false as soon as one side is \<open>NaN\<close>.\<close>

definition js_less :: "number \<Rightarrow> number \<Rightarrow> bool" where
  "js_less a b =
     (case a of None \<Rightarrow> False | Some x \<Rightarrow> (case b of None \<Rightarrow> False | Some y \<Rightarrow> x < y))"

subsection \<open>Time zones of the tz database\<close>

text \<open>
  A zone gives the offset of its local time from UTC, in milliseconds, at a UTC time
  value. The two zones with daylight saving time are written out with their history as
  the tz database records it. Of the database, \<open>tzdb\<close> holds the zones that occur
  below; any other name counts as unknown.
\<close>

type_synonym zone = "int \<Rightarrow> int"

definition SundayOnOrAfter :: "int \<Rightarrow> int" where
  "SundayOnOrAfter day = day + (3 - day) mod 7"

definition LastSunday :: "int \<Rightarrow> int \<Rightarrow> int" where
  "LastSunday y m = SundayOnOrAfter (MakeDay y (m + 1) 1 - 7)"

text \<open>
  America/Chicago. Local mean time, 5 h 50 min 36 s behind Greenwich, until 18 November
  1883, 18:00 UTC; since then 6 h behind, and 5 h behind while clocks are advanced. That
  was so from 9 February 1942 to 30 September 1945, and in the other years between the
  two days that \<open>Chicago_summer\<close> gives (in 1936 the city kept Eastern Standard Time
  between them); the clocks change at 2:00 local time, which is 08:00 UTC on the first
  day and 07:00 UTC on the second.
\<close>

definition Chicago_summer :: "int \<Rightarrow> (int \<times> int) option" where
  "Chicago_summer y =
     (if 2007 \<le> y then Some (SundayOnOrAfter (MakeDay y 2 8), SundayOnOrAfter (MakeDay y 10 1))
      else if 1987 \<le> y then Some (SundayOnOrAfter (MakeDay y 3 1), LastSunday y 9)
      else if 1976 \<le> y then Some (LastSunday y 3, LastSunday y 9)
      else if y = 1975 then Some (LastSunday y 1, LastSunday y 9)
      else if y = 1974 then Some (MakeDay y 0 6, LastSunday y 9)
      else if 1955 \<le> y then Some (LastSunday y 3, LastSunday y 9)
      else if 1946 \<le> y then Some (LastSunday y 3, LastSunday y 8)
      else if 1942 \<le> y then None
      else if 1937 \<le> y then Some (LastSunday y 3, LastSunday y 8)
      else if y = 1936 then Some (MakeDay y 2 1, MakeDay y 10 15)
      else if 1922 \<le> y then Some (LastSunday y 3, LastSunday y 8)
      else if y = 1921 then Some (LastSunday y 2, LastSunday y 9)
      else if y = 1920 then Some (MakeDay y 5 13, LastSunday y 9)
      else if 1918 \<le> y then Some (LastSunday y 2, LastSunday y 9)
      else None)"

definition America_Chicago :: zone where
  "America_Chicago t =
     (if t < - 2717647200000 then - 21036000
      else if - 880214400000 \<le> t \<and> t < - 765392400000 then - 5 * msPerHour
      else (case Chicago_summer (YearFromTime (t - 6 * msPerHour)) of
              None \<Rightarrow> - 6 * msPerHour
            | Some (onDay, offDay) \<Rightarrow>
                if MakeDate onDay (8 * msPerHour) \<le> t \<and> t < MakeDate offDay (7 * msPerHour)
                then - 5 * msPerHour
                else - 6 * msPerHour))"

text \<open>
  Europe/Berlin. Local mean time, 53 min 28 s ahead of Greenwich, until 1 April 1893; then
  1 h ahead, with the changes of the years 1916 to 1980 as \<open>Berlin_changes\<close> lists them
  (the time value of the change and the offset from then on); from 1981 on 2 h ahead
  from the last Sunday of March to the last Sunday of September, since 1996 of October,
  the clocks changing at 01:00 UTC.
\<close>

definition Berlin_changes :: "(int \<times> int) list" where
  "Berlin_changes =
     [(- 2422054408000, 3600000),
      (- 1693706400000, 7200000), (- 1680483600000, 3600000),
      (- 1663455600000, 7200000), (- 1650150000000, 3600000),
      (- 1632006000000, 7200000), (- 1618700400000, 3600000),
      (- 938905200000, 7200000), (- 857257200000, 3600000),
      (- 844556400000, 7200000), (- 828226800000, 3600000),
      (- 812502000000, 7200000), (- 796777200000, 3600000),
      (- 781052400000, 7200000), (- 776563200000, 10800000),
      (- 765936000000, 7200000), (- 761180400000, 3600000),
      (- 748479600000, 7200000), (- 733273200000, 3600000),
      (- 717631200000, 7200000), (- 714610800000, 10800000),
      (- 710380800000, 7200000), (- 701910000000, 3600000),
      (- 684975600000, 7200000), (- 670460400000, 3600000),
      (- 654130800000, 7200000), (- 639010800000, 3600000),
      (323830800000, 7200000), (338950800000, 3600000)]"

fun offset_after :: "(int \<times> int) list \<Rightarrow> int \<Rightarrow> int \<Rightarrow> int" where
  "offset_after [] t current = current"
| "offset_after ((change, offset) # later) t current =
     (if t < change then current else offset_after later t offset)"

definition Europe_Berlin :: zone where
  "Europe_Berlin t =
     (if t < 347155200000 then offset_after Berlin_changes t 3208000
      else (let y = YearFromTime t;
                dstStart = MakeDate (LastSunday y 2) msPerHour;
                dstEnd = MakeDate (LastSunday y (if y < 1996 then 8 else 9)) msPerHour
            in if dstStart \<le> t \<and> t < dstEnd then 2 * msPerHour else msPerHour))"

definition Etc_UTC :: zone where
  "Etc_UTC t = 0"

definition Etc_GMT_plus_6 :: zone where
  "Etc_GMT_plus_6 t = - 6 * msPerHour"

definition tzdb :: "string \<Rightarrow> zone option" where
  "tzdb name =
     (if name = ''America/Chicago'' then Some America_Chicago
      else if name = ''Europe/Berlin'' then Some Europe_Berlin
      else if name = ''UTC'' then Some Etc_UTC
      else if name = ''Etc/GMT+6'' then Some Etc_GMT_plus_6
      else None)"

text \<open>
  The host offset of a process running in zone \<open>z\<close>. A local time that occurs twice
  (clocks set back) means its earlier occurrence; a local time that is skipped (clocks
  set forward) takes the offset in force before the change.
\<close>

definition LocalTZA_of :: "zone \<Rightarrow> int \<Rightarrow> bool \<Rightarrow> int" where
  "LocalTZA_of z t isUTC =
     (if isUTC then z t
      else (let a = z (t - msPerDay); b = z (t + msPerDay); hi = max a b; lo = min a b
            in if z (t - hi) = hi then hi
               else if z (t - lo) = lo then lo
               else a))"

subsection \<open>Intl date formatting for the locale en-US\<close>

text \<open>
  \<open>Date.prototype.toLocaleString\<close> formats through \<open>Intl.DateTimeFormat\<close>, whose
  output comes from the locale data (CLDR) shipped with the runtime. Two points of that
  data changed between releases and are parameters here: what \<open>hour12: false\<close>
  resolves to for en-US (\<open>h23\<close>, midnight is hour 00; or \<open>h24\<close>, midnight is hour
  24), and the space in front of AM/PM (a plain space, or the bytes of a narrow
  no-break space).
\<close>

datatype hourCycle = h23 | h24

record icu =
  hour12_false :: hourCycle
  period_space :: string

datatype fieldStyle = numeric | two_digit
datatype dateTimeStyle = full | long | medium | short

record options =
  timeZone :: "string option"
  year :: "fieldStyle option"
  month :: "fieldStyle option"
  day :: "fieldStyle option"
  hour :: "fieldStyle option"
  minute :: "fieldStyle option"
  second :: "fieldStyle option"
  hour12 :: "bool option"
  dateStyle :: "dateTimeStyle option"
  timeStyle :: "dateTimeStyle option"

text \<open>The fields of a date pattern, named by their pattern letters.\<close>

datatype field =
    Lit string
  | F_y | F_MM | F_MMM | F_d | F_dd
  | F_h | F_HH | F_kk | F_mm | F_ss | F_a

definition digit_char :: "nat \<Rightarrow> char" where
  "digit_char n = ''0123456789'' ! n"

fun decimal :: "nat \<Rightarrow> string" where
  "decimal n =
     (if n < 10 then [digit_char n]
      else decimal (n div 10) @ [digit_char (n mod 10)])"

declare decimal.simps [simp del]

definition pad2 :: "int \<Rightarrow> string" where
  "pad2 n = (if n < 10 then ''0'' @ decimal (nat n) else decimal (nat n))"

definition month_abbr :: "int \<Rightarrow> string" where
  "month_abbr m =
     [''Jan'', ''Feb'', ''Mar'', ''Apr'', ''May'', ''Jun'',
      ''Jul'', ''Aug'', ''Sep'', ''Oct'', ''Nov'', ''Dec''] ! nat m"

text \<open>
  \<open>format_field t f\<close> renders field \<open>f\<close> of the local time value \<open>tl\<close>. The year
  field shows the year of the era: year 0 and earlier count back from 1 (BC), and the
  era itself is not shown.
\<close>

fun format_field :: "int \<Rightarrow> field \<Rightarrow> string" where
  "format_field t (Lit s) = s"
| "format_field t F_y =
     decimal (nat (if 1 \<le> YearFromTime t then YearFromTime t else 1 - YearFromTime t))"
| "format_field t F_MM = pad2 (MonthFromTime t + 1)"
| "format_field t F_MMM = month_abbr (MonthFromTime t)"
| "format_field t F_d = decimal (nat (DateFromTime t))"
| "format_field t F_dd = pad2 (DateFromTime t)"
| "format_field t F_h =
     decimal (nat (if HourFromTime t mod 12 = 0 then 12 else HourFromTime t mod 12))"
| "format_field t F_HH = pad2 (HourFromTime t)"
| "format_field t F_kk = pad2 (if HourFromTime t = 0 then 24 else HourFromTime t)"
| "format_field t F_mm = pad2 (MinFromTime t)"
| "format_field t F_ss = pad2 (SecFromTime t)"
| "format_field t F_a = (if HourFromTime t < 12 then ''AM'' else ''PM'')"

definition format_pattern :: "int \<Rightarrow> field list \<Rightarrow> string" where
  "format_pattern t pat = concat (map (format_field t) pat)"

text \<open>
  The en-US patterns for the two requests the package makes: the six numeric fields
  with \<open>hour12: false\<close> (\<open>MM/dd/y, HH:mm:ss\<close>), and \<open>dateStyle: medium\<close> with
  \<open>timeStyle: short\<close> (\<open>MMM d, y, h:mm a\<close>). Other requests are outside this table.
\<close>

definition en_US_pattern :: "icu \<Rightarrow> options \<Rightarrow> field list option" where
  "en_US_pattern P opts =
     (if opts\<lparr>timeZone := None\<rparr> =
           \<lparr>timeZone = None, year = Some numeric, month = Some two_digit,
            day = Some two_digit, hour = Some two_digit, minute = Some two_digit,
            second = Some two_digit, hour12 = Some False,
            dateStyle = None, timeStyle = None\<rparr>
      then Some [F_MM, Lit ''/'', F_dd, Lit ''/'', F_y, Lit '', '',
                 (case hour12_false P of h23 \<Rightarrow> F_HH | h24 \<Rightarrow> F_kk),
                 Lit '':'', F_mm, Lit '':'', F_ss]
      else if opts\<lparr>timeZone := None\<rparr> =
           \<lparr>timeZone = None, year = None, month = None, day = None, hour = None,
            minute = None, second = None, hour12 = None,
            dateStyle = Some medium, timeStyle = Some short\<rparr>
      then Some [F_MMM, Lit '' '', F_d, Lit '', '', F_y, Lit '', '',
                 F_h, Lit '':'', F_mm, Lit (period_space P), F_a]
      else None)"

datatype js_error = RangeError | OutsideModel

text \<open>
  \<open>date.toLocaleString(locales, options)\<close>. An invalid date gives the string
  \<open>Invalid Date\<close>; a time zone name the tz database does not know raises a
  \<open>RangeError\<close>; without a \<open>timeZone\<close> option the host zone is used.
\<close>

definition Date_toLocaleString :: "icu \<Rightarrow> world \<Rightarrow> Date \<Rightarrow> string \<Rightarrow> options \<Rightarrow> js_error + string" where
  "Date_toLocaleString P W date locales opts =
     (case date of
        None \<Rightarrow> Inr ''Invalid Date''
      | Some t \<Rightarrow>
          (case (case timeZone opts of
                   None \<Rightarrow> Some (\<lambda>u. LocalTZA W u True)
                 | Some name \<Rightarrow> tzdb name) of
             None \<Rightarrow> Inl RangeError
           | Some z \<Rightarrow>
               (case (if locales = ''en-US'' then en_US_pattern P opts else None) of
                  None \<Rightarrow> Inl OutsideModel
                | Some pat \<Rightarrow> Inr (format_pattern (t + z t) pat))))"

section \<open>timezone.ts\<close>

definition TIMEZONE :: string where
  "TIMEZONE = ''America/Chicago''"

text \<open>
  \<^verbatim>\<open>export function nowInCentralTime(): Date { return new Date() }\<close>
\<close>

definition nowInCentralTime :: "world \<Rightarrow> Date" where
  "nowInCentralTime W = new_Date W"

text \<open>
  \<^verbatim>\<open>
  export function isDST(date: Date = new Date()): boolean {
    const jan = new Date(date.getFullYear(), 0, 1)
    const jul = new Date(date.getFullYear(), 6, 1)
    const stdOffset = Math.max(jan.getTimezoneOffset(), jul.getTimezoneOffset())
    return date.getTimezoneOffset() < stdOffset
  }\<close>
  The argument is optional: \<open>None\<close> is a call without it, which reads the clock.
\<close>

definition isDST :: "world \<Rightarrow> Date option \<Rightarrow> bool" where
  "isDST W arg =
     (let date = (case arg of None \<Rightarrow> new_Date W | Some d \<Rightarrow> d);
          jan = new_Date_ymd W (getFullYear W date) 0 1;
          jul = new_Date_ymd W (getFullYear W date) 6 1;
          stdOffset = Math_max (getTimezoneOffset W jan) (getTimezoneOffset W jul)
      in js_less (getTimezoneOffset W date) stdOffset)"

text \<open>
  \<^verbatim>\<open>
  export function getCurrentOffset(): string {
    const date = new Date()
    return isDST(date) ? 'GMT-5' : 'GMT-6'
  }\<close>
\<close>

definition getCurrentOffset :: "world \<Rightarrow> string" where
  "getCurrentOffset W =
     (let date = new_Date W
      in if isDST W (Some date) then ''GMT-5'' else ''GMT-6'')"

text \<open>
  \<^verbatim>\<open>
  export function toCentralTime(date: Date): string {
    return date.toLocaleString('en-US', {
      timeZone: TIMEZONE,
      year: 'numeric', month: '2-digit', day: '2-digit',
      hour: '2-digit', minute: '2-digit', second: '2-digit',
      hour12: false })
  }\<close>
\<close>

definition toCentralTime :: "icu \<Rightarrow> world \<Rightarrow> Date \<Rightarrow> js_error + string" where
  "toCentralTime P W date =
     Date_toLocaleString P W date ''en-US''
       \<lparr>timeZone = Some TIMEZONE, year = Some numeric, month = Some two_digit,
        day = Some two_digit, hour = Some two_digit, minute = Some two_digit,
        second = Some two_digit, hour12 = Some False,
        dateStyle = None, timeStyle = None\<rparr>"

text \<open>
  \<^verbatim>\<open>
  export function formatCentralTime(date: Date): string {
    return date.toLocaleString('en-US', {
      timeZone: TIMEZONE, dateStyle: 'medium', timeStyle: 'short' })
  }\<close>
\<close>

definition formatCentralTime :: "icu \<Rightarrow> world \<Rightarrow> Date \<Rightarrow> js_error + string" where
  "formatCentralTime P W date =
     Date_toLocaleString P W date ''en-US''
       \<lparr>timeZone = Some TIMEZONE, year = None, month = None, day = None, hour = None,
        minute = None, second = None, hour12 = None,
        dateStyle = Some medium, timeStyle = Some short\<rparr>"

subsection \<open>Calls on Date objects\<close>

text \<open>
  A \<open>Date\<close> is an object: a cell of the heap that holds the time value, and that the
  setters of \<open>Date\<close> overwrite in place. A call of a function of the package gets a
  reference to the object, runs in a heap and leaves a heap. The cells below
  \<open>allocated h\<close> are in use; \<open>new Date\<close> takes the next one. Each function is written
  once more as such a call, statement by statement.
\<close>

type_synonym ref = nat

record heap =
  cell :: "ref \<Rightarrow> Date"
  allocated :: nat

definition alloc :: "heap \<Rightarrow> Date \<Rightarrow> ref \<times> heap" where
  "alloc h v =
     (allocated h, h\<lparr>cell := (cell h)(allocated h := v), allocated := allocated h + 1\<rparr>)"

definition toCentralTime_call :: "icu \<Rightarrow> world \<Rightarrow> heap \<Rightarrow> ref \<Rightarrow> (js_error + string) \<times> heap" where
  "toCentralTime_call P W h date = (toCentralTime P W (cell h date), h)"

definition formatCentralTime_call :: "icu \<Rightarrow> world \<Rightarrow> heap \<Rightarrow> ref \<Rightarrow> (js_error + string) \<times> heap" where
  "formatCentralTime_call P W h date = (formatCentralTime P W (cell h date), h)"

definition nowInCentralTime_call :: "world \<Rightarrow> heap \<Rightarrow> ref \<times> heap" where
  "nowInCentralTime_call W h = alloc h (new_Date W)"

definition isDST_call :: "world \<Rightarrow> heap \<Rightarrow> ref option \<Rightarrow> bool \<times> heap" where
  "isDST_call W h arg =
     (let (date, h0) = (case arg of None \<Rightarrow> alloc h (new_Date W) | Some r \<Rightarrow> (r, h));
          (jan, h1) = alloc h0 (new_Date_ymd W (getFullYear W (cell h0 date)) 0 1);
          (jul, h2) = alloc h1 (new_Date_ymd W (getFullYear W (cell h1 date)) 6 1);
          stdOffset = Math_max (getTimezoneOffset W (cell h2 jan))
                               (getTimezoneOffset W (cell h2 jul))
      in (js_less (getTimezoneOffset W (cell h2 date)) stdOffset, h2))"

definition getCurrentOffset_call :: "world \<Rightarrow> heap \<Rightarrow> string \<times> heap" where
  "getCurrentOffset_call W h =
     (let (date, h1) = alloc h (new_Date W);
          (dst, h2) = isDST_call W h1 (Some date)
      in (if dst then ''GMT-5'' else ''GMT-6'', h2))"

section \<open>index.ts\<close>

text \<open>
  \<^verbatim>\<open>const TIMEZONE = process.env.TZ || 'America/Chicago'\<close>

  The operator \<open>||\<close> takes its right side when the left is undefined or the empty
  string. This constant is local to \<open>index.ts\<close>; the exported one is the constant of
  \<open>timezone.ts\<close>.
\<close>

definition TIMEZONE_index :: "world \<Rightarrow> string" where
  "TIMEZONE_index W =
     (case env_TZ W of
        None \<Rightarrow> ''America/Chicago''
      | Some z \<Rightarrow> if z = [] then ''America/Chicago'' else z)"

text \<open>The template literal \<^verbatim>\<open>`SET timezone = '${TIMEZONE}'`\<close>.\<close>

definition timezone_directive :: "world \<Rightarrow> string" where
  "timezone_directive W = ''SET timezone = '' @ [CHR 0x27] @ TIMEZONE_index W @ [CHR 0x27]"

subsection \<open>The driver: clients and the pool\<close>

text \<open>
  What the package uses of the PostgreSQL driver. A client is one physical connection;
  \<open>client.query(text)\<close> puts the statement at the end of the client's queue, the
  statements go to the server in queue order, and the call returns a promise that the
  server's answer settles later (\<open>True\<close>: it will be fulfilled, \<open>False\<close>: it will be
  rejected). Each queue entry records who issued it. A server may be unreachable, and
  decides which statements it accepts.
\<close>

datatype issuer = Initializer | Caller

record client =
  queryQueue :: "(issuer \<times> string) list"

record server =
  reachable :: bool
  accepts :: "string \<Rightarrow> bool"

datatype pg_error = ConnectionError

type_synonym promise = bool

definition client_query :: "server \<Rightarrow> client \<Rightarrow> issuer \<Rightarrow> string \<Rightarrow> client \<times> promise" where
  "client_query S c who text =
     (c\<lparr>queryQueue := queryQueue c @ [(who, text)]\<rparr>, accepts S text)"

text \<open>
  \<^verbatim>\<open>
  pool.on('connect', (client) => {
    client.query(`SET timezone = '${TIMEZONE}'`)
  })\<close>
  The handler calls \<open>client.query\<close> and returns nothing: the promise stays behind with
  no handler attached. \<open>on_connect\<close> gives the client and the promises left so.
\<close>

definition on_connect :: "world \<Rightarrow> server \<Rightarrow> client \<Rightarrow> client \<times> promise list" where
  "on_connect W S c =
     (let (c', directive) = client_query S c Initializer (timezone_directive W)
      in (c', [directive]))"

text \<open>
  The pool holds its physical connections, numbered in the order of their creation.
  Beside them the state records the promises that are pending without a handler, each
  with the number of its connection, and whether the process has ended. Opening a
  connection fails when the server is unreachable; otherwise the pool emits
  \<open>connect\<close>, which runs the handler, and hands the client to the caller that asked.
  The server's answers come later.
\<close>

record pool =
  clients :: "client list"
  unhandled :: "(nat \<times> promise) list"
  exited :: bool

definition new_Pool :: pool where
  "new_Pool = \<lparr>clients = [], unhandled = [], exited = False\<rparr>"

definition pool_connect :: "world \<Rightarrow> server \<Rightarrow> pool \<Rightarrow> (pg_error + nat) \<times> pool" where
  "pool_connect W S p =
     (if reachable S
      then (let (c, left) = on_connect W S \<lparr>queryQueue = []\<rparr>; i = length (clients p)
            in (Inr i,
                p\<lparr>clients := clients p @ [c],
                  unhandled := unhandled p @ map (Pair i) left\<rparr>))
      else (Inl ConnectionError, p))"

text \<open>
  What happens over time: a caller asks for a connection and the pool opens a new one;
  a caller sends a statement on connection \<open>i\<close>, which it holds (taking an idle
  connection out of the pool and giving it back change no queue); the server's answer
  to the initializer's statement on connection \<open>i\<close> arrives and settles its promise. A
  promise rejected with no handler attached is an unhandled rejection, on which Node
  (by default, from version 15) ends the process; after that nothing happens any more.
\<close>

datatype event = NewConnection | CallerQuery nat string | DirectiveAnswered nat

fun running_step :: "world \<Rightarrow> server \<Rightarrow> pool \<Rightarrow> event \<Rightarrow> pool" where
  "running_step W S p NewConnection = snd (pool_connect W S p)"
| "running_step W S p (CallerQuery i text) =
     (if i < length (clients p)
      then p\<lparr>clients := (clients p)[i := fst (client_query S (clients p ! i) Caller text)]\<rparr>
      else p)"
| "running_step W S p (DirectiveAnswered i) =
     p\<lparr>unhandled := filter (\<lambda>u. fst u \<noteq> i) (unhandled p),
       exited := list_ex (\<lambda>u. fst u = i \<and> \<not> snd u) (unhandled p)\<rparr>"

definition step :: "world \<Rightarrow> server \<Rightarrow> pool \<Rightarrow> event \<Rightarrow> pool" where
  "step W S p e = (if exited p then p else running_step W S p e)"

fun run :: "world \<Rightarrow> server \<Rightarrow> pool \<Rightarrow> event list \<Rightarrow> pool" where
  "run W S p [] = p"
| "run W S p (e # es) = run W S (step W S p e) es"

section \<open>Concrete processes used in the examples\<close>

text \<open>
  A runtime with the older locale data; a process in a container whose zone is UTC and
  where \<open>TZ\<close> is not set; processes whose zone is set by \<open>TZ\<close>. The clock stands at
  2025-12-23T21:45:00Z.
\<close>

definition node_icu :: icu where
  "node_icu = \<lparr>hour12_false = h23, period_space = '' ''\<rparr>"

definition utc_container :: world where
  "utc_container = \<lparr>now = 1766526300000, LocalTZA = LocalTZA_of Etc_UTC, env_TZ = None\<rparr>"

definition chicago_process :: world where
  "chicago_process =
     \<lparr>now = 1766526300000, LocalTZA = LocalTZA_of America_Chicago,
      env_TZ = Some ''America/Chicago''\<rparr>"


definition chicago_in_july :: world where
  "chicago_in_july = chicago_process\<lparr>now := 1752580800000\<rparr>"

definition rejecting_server :: server where
  "rejecting_server = \<lparr>reachable = True, accepts = (\<lambda>text. False)\<rparr>"


section \<open>Notions used to state the properties\<close>

text \<open>
  The offset of the host's local time from UTC at a time value (negative west of
  Greenwich), and the time value of local midnight on the first day of month \<open>m\<close> of
  year \<open>y\<close>.
\<close>

definition utc_offset :: "world \<Rightarrow> int \<Rightarrow> int" where
  "utc_offset W t = LocalTZA W t True"

definition first_of_month :: "world \<Rightarrow> int \<Rightarrow> int \<Rightarrow> int" where
  "first_of_month W y m = UTC W (MakeDate (MakeDay y m 1) (MakeTime 0 0 0 0))"

text \<open>
  The comparison in the words of the specification, for the zone of \<open>W\<close>: the baseline
  is the more negative of the offsets on 1 January and 1 July of the instant's year, and
  daylight saving is active when the instant's offset is smaller in magnitude than the
  baseline.
\<close>

definition isDaylightSaving_by_magnitude :: "world \<Rightarrow> int \<Rightarrow> bool" where
  "isDaylightSaving_by_magnitude W t =
     (let y = YearFromTime (LocalTime W t);
          baseline = min (utc_offset W (first_of_month W y 0))
                         (utc_offset W (first_of_month W y 6))
      in \<bar>utc_offset W t\<bar> < \<bar>baseline\<bar>)"

text \<open>
  A string fits a template when it has the template's length, a decimal digit wherever
  the template has \<open>D\<close>, and the template's own character everywhere else.
\<close>

definition is_digit :: "char \<Rightarrow> bool" where
  "is_digit c = (c \<in> set ''0123456789'')"

fun matches :: "string \<Rightarrow> string \<Rightarrow> bool" where
  "matches [] [] = True"
| "matches (p # ps) (c # cs) = ((if p = CHR ''D'' then is_digit c else c = p) \<and> matches ps cs)"
| "matches _ _ = False"

text \<open>
  Heap \<open>h'\<close> leaves heap \<open>h\<close> untouched: every object of \<open>h\<close> is an object of \<open>h'\<close>
  and holds the value it held.
\<close>

definition untouched :: "heap \<Rightarrow> heap \<Rightarrow> bool" where
  "untouched h h' =
     (allocated h \<le> allocated h' \<and> list_all (\<lambda>r. cell h' r = cell h r) [0..<allocated h])"

text \<open>A heap with one \<open>Date\<close>, 2025-07-15T12:00:00Z.\<close>

definition one_date :: heap where
  "one_date = \<lparr>cell = (\<lambda>r. None)(0 := Some 1752580800000), allocated = 1\<rparr>"

text \<open>
  A connection was initialised once: the first statement of its queue is the
  initializer's directive, and every later statement comes from a caller.
\<close>

definition initialised_once :: "world \<Rightarrow> client \<Rightarrow> bool" where
  "initialised_once W c =
     (case queryQueue c of
        [] \<Rightarrow> False
      | e # rest \<Rightarrow> e = (Initializer, timezone_directive W) \<and> list_all (\<lambda>q. fst q = Caller) rest)"

section \<open>The calendar is the Gregorian calendar\<close>

lemma div_lower: "0 < k \<Longrightarrow> k * (x div k) \<le> (x::int)"
  using pos_mod_sign[of k x] mult_div_mod_eq[of k x] by linarith

lemma div_upper: "0 < k \<Longrightarrow> (x::int) < k * (x div k) + k"
  using pos_mod_bound[of k x] mult_div_mod_eq[of k x] by linarith

text \<open>The first day of year \<open>y\<close> is within two days of \<open>365.2425 * (y - 1970)\<close>.\<close>

lemma DayFromYear_approx:
  "146097 * y - 287811596 \<le> 400 * DayFromYear y"
  "400 * DayFromYear y \<le> 146097 * y - 287810501"
proof -
  define a where "a = (y - 1969) div 4"
  define b where "b = (y - 1901) div 100"
  define c where "c = (y - 1601) div 400"
  have a: "4 * a \<le> y - 1969" "y - 1969 < 4 * a + 4"
    unfolding a_def using div_lower[of 4 "y - 1969"] div_upper[of 4 "y - 1969"] by simp_all
  have b: "100 * b \<le> y - 1901" "y - 1901 < 100 * b + 100"
    unfolding b_def using div_lower[of 100 "y - 1901"] div_upper[of 100 "y - 1901"] by simp_all
  have c: "400 * c \<le> y - 1601" "y - 1601 < 400 * c + 400"
    unfolding c_def using div_lower[of 400 "y - 1601"] div_upper[of 400 "y - 1601"] by simp_all
  have D: "400 * DayFromYear y = 146000 * y - 287620000 + 400 * a - 400 * b + 400 * c"
    unfolding DayFromYear_def a_def b_def c_def by (simp add: algebra_simps)
  show "146097 * y - 287811596 \<le> 400 * DayFromYear y"
    unfolding D using a b c by linarith
  show "400 * DayFromYear y \<le> 146097 * y - 287810501"
    unfolding D using a b c by linarith
qed

lemma DayFromYear_strict_mono: "y < z \<Longrightarrow> DayFromYear y < DayFromYear z"
  using DayFromYear_approx[of y] DayFromYear_approx[of z] by linarith

lemma DayFromYear_mono: "y \<le> z \<Longrightarrow> DayFromYear y \<le> DayFromYear z"
  using DayFromYear_strict_mono[of y z] by (cases "y = z") auto

text \<open>The year found is the one whose days contain the given day, and the only one.\<close>

lemma YearFromDay_bounds:
  "DayFromYear (YearFromDay d) \<le> d" "d < DayFromYear (YearFromDay d + 1)"
proof -
  define n where "n = (400 * d) div 146097"
  have n: "146097 * n \<le> 400 * d" "400 * d < 146097 * n + 146097"
    unfolding n_def using div_lower[of 146097 "400 * d"] div_upper[of 146097 "400 * d"]
    by simp_all
  have lo: "DayFromYear (1970 + n - 1) \<le> d"
    using DayFromYear_approx[of "1970 + n - 1"] n by (simp add: algebra_simps)
  have hi: "d < DayFromYear (1970 + n + 1 + 1)"
    using DayFromYear_approx[of "1970 + n + 1 + 1"] n by (simp add: algebra_simps)
  show "DayFromYear (YearFromDay d) \<le> d"
    unfolding YearFromDay_def Let_def n_def[symmetric] using lo hi by auto
  show "d < DayFromYear (YearFromDay d + 1)"
    unfolding YearFromDay_def Let_def n_def[symmetric] using lo hi by auto
qed

lemma YearFromDay_unique:
  assumes "DayFromYear y \<le> d" "d < DayFromYear (y + 1)"
  shows "YearFromDay d = y"
proof (rule ccontr)
  assume ne: "YearFromDay d \<noteq> y"
  note b = YearFromDay_bounds[of d]
  show False
  proof (cases "YearFromDay d < y")
    case True
    then have "DayFromYear (YearFromDay d + 1) \<le> DayFromYear y"
      by (intro DayFromYear_mono) simp
    with b assms show False by linarith
  next
    case False
    with ne have "DayFromYear (y + 1) \<le> DayFromYear (YearFromDay d)"
      by (intro DayFromYear_mono) simp
    with b assms show False by linarith
  qed
qed

lemma YearFromTime_bounds:
  "DayFromYear (YearFromTime t) \<le> Day t" "Day t < DayFromYear (YearFromTime t + 1)"
  unfolding YearFromTime_def by (rule YearFromDay_bounds)+

lemma div_succ:
  assumes "0 < k"
  shows "((x::int) + 1) div k = x div k + (if (x + 1) mod k = 0 then 1 else 0)"
proof -
  define q where "q = x div k"
  define r where "r = x mod k"
  have x: "x = k * q + r" and r: "0 \<le> r" "r < k"
    unfolding q_def r_def using assms by simp_all
  show ?thesis
  proof (cases "r + 1 = k")
    case True
    have e: "x + 1 = k * (q + 1) + 0" using x True by (simp add: algebra_simps)
    have "(x + 1) div k = q + 1" by (rule int_div_pos_eq[OF e]) (use assms in simp_all)
    moreover have "(x + 1) mod k = 0" by (rule int_mod_pos_eq[OF e]) (use assms in simp_all)
    ultimately show ?thesis by (simp add: q_def)
  next
    case False
    have e: "x + 1 = k * q + (r + 1)" using x by simp
    have "(x + 1) div k = q" by (rule int_div_pos_eq[OF e]) (use r False in simp_all)
    moreover have "(x + 1) mod k = r + 1" by (rule int_mod_pos_eq[OF e]) (use r False in simp_all)
    ultimately show ?thesis using r by (simp add: q_def)
  qed
qed

lemma mod_shift: "((y::int) + k * c) mod k = y mod k"
  by simp

lemma mod4: "((y::int) - 1968) mod 4 = y mod 4"
  using mod_shift[of y 4 "-492"] by simp
lemma mod100: "((y::int) - 1900) mod 100 = y mod 100"
  using mod_shift[of y 100 "-19"] by simp
lemma mod400: "((y::int) - 1600) mod 400 = y mod 400"
  using mod_shift[of y 400 "-4"] by simp

lemma mod_4_of_100: "(y::int) mod 100 = 0 \<Longrightarrow> y mod 4 = 0"
  by (metis dvd_eq_mod_eq_0 dvd_trans[of 4 100 y] dvd_triv_left[of 4 25] mult.commute numeral_times_numeral semiring_norm(12,13,14) )


lemma DayFromYear_step: "DayFromYear (y + 1) = DayFromYear y + DaysInYear y"
proof -
  have a: "(y + 1 - 1969) div 4 = (y - 1969) div 4 + (if y mod 4 = 0 then 1 else 0)"
    using div_succ[of 4 "y - 1969"] mod4[of y] by (simp add: algebra_simps)
  have b: "(y + 1 - 1901) div 100 = (y - 1901) div 100 + (if y mod 100 = 0 then 1 else 0)"
    using div_succ[of 100 "y - 1901"] mod100[of y] by (simp add: algebra_simps)
  have c: "(y + 1 - 1601) div 400 = (y - 1601) div 400 + (if y mod 400 = 0 then 1 else 0)"
    using div_succ[of 400 "y - 1601"] mod400[of y] by (simp add: algebra_simps)
  have d1: "y mod 100 = 0 \<Longrightarrow> y mod 4 = 0" by (rule mod_4_of_100)
  have d2: "y mod 400 = 0 \<Longrightarrow> y mod 100 = 0"
    by (metis dvd_eq_mod_eq_0 dvd_trans[of 100 400 y] dvd_triv_left[of 100 4] mult.commute numeral_times_numeral semiring_norm(12,13,14))
  show ?thesis
    unfolding DayFromYear_def DaysInYear_def a b c using d1 d2 by (auto simp: algebra_simps)
qed

lemma DaysInYear_cases: "DaysInYear y = 365 \<or> DaysInYear y = 366"
  unfolding DaysInYear_def by simp

lemma DayWithinYear_bounds:
  "0 \<le> DayWithinYear t" "DayWithinYear t < DaysInYear (YearFromTime t)"
  unfolding DayWithinYear_def YearFromTime_def
  using YearFromDay_bounds[of "Day t"] DayFromYear_step[of "YearFromDay (Day t)"] by simp_all

lemma MonthFromTime_bounds: "0 \<le> MonthFromTime t" "MonthFromTime t \<le> 11"
  unfolding MonthFromTime_def Let_def by simp_all

lemma DateFromTime_bounds: "1 \<le> DateFromTime t" "DateFromTime t \<le> 31"
proof -
  have l: "DayWithinYear t < 365 + InLeapYear t"
    using DayWithinYear_bounds(2)[of t] DaysInYear_cases[of "YearFromTime t"]
    unfolding InLeapYear_def by auto
  have l01: "InLeapYear t = 0 \<or> InLeapYear t = 1" unfolding InLeapYear_def by simp
  show "1 \<le> DateFromTime t"
    using DayWithinYear_bounds(1)[of t] l l01
    unfolding DateFromTime_def MonthFromTime_def Let_def by (auto split: if_splits)
  show "DateFromTime t \<le> 31"
    using DayWithinYear_bounds(1)[of t] l l01
    unfolding DateFromTime_def MonthFromTime_def Let_def by (auto split: if_splits)
qed


lemma HourFromTime_bounds: "0 \<le> HourFromTime t" "HourFromTime t < 24"
  unfolding HourFromTime_def by simp_all

lemma MinFromTime_bounds: "0 \<le> MinFromTime t" "MinFromTime t < 60"
  unfolding MinFromTime_def by simp_all

lemma SecFromTime_bounds: "0 \<le> SecFromTime t" "SecFromTime t < 60"
  unfolding SecFromTime_def by simp_all

section \<open>What the formatting functions compute\<close>

lemma tzdb_TIMEZONE: "tzdb TIMEZONE = Some America_Chicago"
  by (simp add: tzdb_def TIMEZONE_def)

lemma toCentralTime_Some:
  "toCentralTime P W (Some t) =
     Inr (format_pattern (t + America_Chicago t)
       [F_MM, Lit ''/'', F_dd, Lit ''/'', F_y, Lit '', '',
        (case hour12_false P of h23 \<Rightarrow> F_HH | h24 \<Rightarrow> F_kk),
        Lit '':'', F_mm, Lit '':'', F_ss])"
  by (simp add: toCentralTime_def Date_toLocaleString_def tzdb_TIMEZONE en_US_pattern_def)

lemma formatCentralTime_Some:
  "formatCentralTime P W (Some t) =
     Inr (format_pattern (t + America_Chicago t)
       [F_MMM, Lit '' '', F_d, Lit '', '', F_y, Lit '', '',
        F_h, Lit '':'', F_mm, Lit (period_space P), F_a])"
  by (simp add: formatCentralTime_def Date_toLocaleString_def tzdb_TIMEZONE en_US_pattern_def)

lemma toCentralTime_None: "toCentralTime P W None = Inr ''Invalid Date''"
  by (simp add: toCentralTime_def Date_toLocaleString_def)

lemma formatCentralTime_None: "formatCentralTime P W None = Inr ''Invalid Date''"
  by (simp add: formatCentralTime_def Date_toLocaleString_def)

text \<open>2025-12-23T21:45:00Z in Chicago: 15:45 on 23 December 2025, Central Standard Time.\<close>

lemma Chicago_at_example: "America_Chicago 1766526300000 = - 21600000"
  by code_simp

lemma example_fields:
  "YearFromTime 1766504700000 = 2025"
  "MonthFromTime 1766504700000 = 11"
  "DateFromTime 1766504700000 = 23"
  "HourFromTime 1766504700000 = 15"
  "MinFromTime 1766504700000 = 45"
  "SecFromTime 1766504700000 = 0"
  by code_simp+

lemma decimal_lt10: "n < 10 \<Longrightarrow> decimal n = [digit_char n]"
  by (subst decimal.simps) simp

lemma decimal_step: "10 \<le> n \<Longrightarrow> decimal n = decimal (n div 10) @ [digit_char (n mod 10)]"
  by (subst decimal.simps) simp

lemma digit_char_values:
  "digit_char 0 = CHR ''0''" "digit_char 1 = CHR ''1''" "digit_char 2 = CHR ''2''"
  "digit_char 3 = CHR ''3''" "digit_char 4 = CHR ''4''" "digit_char 5 = CHR ''5''"
  "digit_char 6 = CHR ''6''" "digit_char 7 = CHR ''7''" "digit_char 8 = CHR ''8''"
  "digit_char 9 = CHR ''9''" "digit_char (Suc 0) = CHR ''1''"
  by (simp_all add: digit_char_def)

lemma decimal_examples:
  "decimal 2025 = ''2025''" "decimal 23 = ''23''" "decimal 12 = ''12''"
  "decimal 15 = ''15''" "decimal 45 = ''45''" "decimal 3 = ''3''" "decimal 0 = ''0''"
  "decimal 10000 = ''10000''" "decimal (Suc 0) = ''1''" "decimal 18 = ''18''"
  by (simp_all add: decimal_lt10 decimal_step digit_char_values)

lemma toCentralTime_at_example:
  "toCentralTime P W (Some 1766526300000) = Inr ''12/23/2025, 15:45:00''"
  by (cases "hour12_false P")
     (simp_all add: toCentralTime_Some Chicago_at_example format_pattern_def example_fields
      decimal_examples pad2_def)

text \<open>Two-digit fields have two digits, and a year from 1000 to 9999 has four.\<close>

lemma nth_digit: "n < 10 \<Longrightarrow> is_digit (digit_char n)"
  unfolding is_digit_def digit_char_def by (rule nth_mem) simp

lemma decimal_2: 
  assumes "10 \<le> n" "n < 100"
  shows "\<exists>a b. decimal n = [a, b] \<and> is_digit a \<and> is_digit b"
proof -
  have "n div 10 < 10" using assms by simp
  then show ?thesis
    using assms by (simp add: decimal_step decimal_lt10 nth_digit)
qed

lemma decimal_3: 
  assumes "100 \<le> n" "n < 1000"
  shows "\<exists>a b c. decimal n = [a, b, c] \<and> is_digit a \<and> is_digit b \<and> is_digit c"
proof -
  have "10 \<le> n div 10" "n div 10 < 100" using assms by simp_all
  from decimal_2[OF this] obtain a b where "decimal (n div 10) = [a, b]" "is_digit a" "is_digit b"
    by blast
  then show ?thesis
    using assms by (simp add: decimal_step nth_digit)
qed

lemma decimal_4: 
  assumes "1000 \<le> n" "n < 10000"
  shows "\<exists>a b c d. decimal n = [a, b, c, d] \<and> is_digit a \<and> is_digit b \<and> is_digit c \<and> is_digit d"
proof -
  have "100 \<le> n div 10" "n div 10 < 1000" using assms by simp_all
  from decimal_3[OF this] obtain a b c where
    "decimal (n div 10) = [a, b, c]" "is_digit a" "is_digit b" "is_digit c"
    by blast
  then show ?thesis
    using assms by (simp add: decimal_step nth_digit)
qed

lemma pad2_shape:
  assumes "0 \<le> n" "n < 100"
  shows "\<exists>a b. pad2 n = [a, b] \<and> is_digit a \<and> is_digit b"
proof (cases "n < 10")
  case True
  then have "nat n < 10" using assms by simp
  then show ?thesis using True
    by (simp add: pad2_def decimal_lt10 nth_digit is_digit_def[of "CHR ''0''"])
next
  case False
  then have "10 \<le> nat n" "nat n < 100" using assms by simp_all
  from decimal_2[OF this] show ?thesis using False by (simp add: pad2_def)
qed

lemma toCentralTime_fields:
  "toCentralTime P W (Some t) =
     (let l = t + America_Chicago t
      in Inr (pad2 (MonthFromTime l + 1) @ ''/'' @ pad2 (DateFromTime l) @ ''/'' @
              decimal (nat (if 1 \<le> YearFromTime l then YearFromTime l else 1 - YearFromTime l)) @
              '', '' @
              pad2 (case hour12_false P of
                      h23 \<Rightarrow> HourFromTime l
                    | h24 \<Rightarrow> if HourFromTime l = 0 then 24 else HourFromTime l) @
              '':'' @ pad2 (MinFromTime l) @ '':'' @ pad2 (SecFromTime l)))"
  by (cases "hour12_false P") (simp_all add: toCentralTime_Some format_pattern_def Let_def)


text \<open>2 January 10000, 00:00 UTC, is 1 January 10000, 18:00, in Chicago.\<close>

lemma Chicago_in_year_10000: "America_Chicago 253402387200000 = - 21600000"
  by code_simp

lemma year_10000_fields:
  "YearFromTime 253402365600000 = 10000"
  "MonthFromTime 253402365600000 = 0"
  "DateFromTime 253402365600000 = 1"
  "HourFromTime 253402365600000 = 18"
  "MinFromTime 253402365600000 = 0"
  "SecFromTime 253402365600000 = 0"
  by code_simp+

lemma toCentralTime_any_world: "toCentralTime P W d = toCentralTime P W' d"
  by (cases d) (simp_all add: toCentralTime_Some toCentralTime_None)

lemma formatCentralTime_any_world: "formatCentralTime P W d = formatCentralTime P W' d"
  by (cases d) (simp_all add: formatCentralTime_Some formatCentralTime_None)

section \<open>The first of a month at local midnight\<close>

text \<open>The day that \<open>MakeDay y m 1\<close> names is the first of that month of year \<open>y\<close>.\<close>

lemma Day_MakeDate: "Day (MakeDate d 0) = d" "TimeWithinDay (MakeDate d 0) = 0"
  unfolding Day_def MakeDate_def TimeWithinDay_def msPerDay_def by simp_all

lemma YearFromTime_Jan1: "YearFromTime (MakeDate (MakeDay y 0 1) (MakeTime 0 0 0 0)) = y"
proof -
  have d: "Day (MakeDate (MakeDay y 0 1) (MakeTime 0 0 0 0)) = DayFromYear y"
    by (simp add: MakeTime_def Day_MakeDate MakeDay_def DaysBeforeMonth_def)
  show ?thesis unfolding YearFromTime_def d
    by (rule YearFromDay_unique) (simp_all add: DayFromYear_strict_mono)
qed

lemma YearFromTime_Jul1: "YearFromTime (MakeDate (MakeDay y 6 1) (MakeTime 0 0 0 0)) = y"
proof -
  have d: "Day (MakeDate (MakeDay y 6 1) (MakeTime 0 0 0 0)) =
      DayFromYear y + 181 + (if DaysInYear y = 366 then 1 else 0)"
    by (simp add: MakeTime_def Day_MakeDate MakeDay_def DaysBeforeMonth_def)
  show ?thesis unfolding YearFromTime_def d
    using DaysInYear_cases[of y]
    by (intro YearFromDay_unique) (auto simp add: DayFromYear_step)
qed

lemma Jan1_is_Jan1:
  "MonthFromTime (MakeDate (MakeDay y 0 1) (MakeTime 0 0 0 0)) = 0"
  "DateFromTime (MakeDate (MakeDay y 0 1) (MakeTime 0 0 0 0)) = 1"
proof -
  let ?t = "MakeDate (MakeDay y 0 1) (MakeTime 0 0 0 0)"
  have d: "DayWithinYear ?t = 0"
    unfolding DayWithinYear_def YearFromTime_Jan1
    by (simp add: MakeTime_def Day_MakeDate MakeDay_def DaysBeforeMonth_def)
  show "MonthFromTime ?t = 0" unfolding MonthFromTime_def d by simp
  then show "DateFromTime ?t = 1" unfolding DateFromTime_def d by simp
qed

lemma Jul1_is_Jul1:
  "MonthFromTime (MakeDate (MakeDay y 6 1) (MakeTime 0 0 0 0)) = 6"
  "DateFromTime (MakeDate (MakeDay y 6 1) (MakeTime 0 0 0 0)) = 1"
proof -
  let ?t = "MakeDate (MakeDay y 6 1) (MakeTime 0 0 0 0)"
  have d: "DayWithinYear ?t = 181 + InLeapYear ?t"
    unfolding DayWithinYear_def InLeapYear_def YearFromTime_Jul1
    by (simp add: MakeTime_def Day_MakeDate MakeDay_def DaysBeforeMonth_def)
  have l01: "InLeapYear ?t = 0 \<or> InLeapYear ?t = 1" unfolding InLeapYear_def by simp
  show m: "MonthFromTime ?t = 6" unfolding MonthFromTime_def d using l01 by auto
  show "DateFromTime ?t = 1" unfolding DateFromTime_def m unfolding d by simp
qed

section \<open>What isDST computes\<close>

lemma isDST_host_zone_only:
  assumes "LocalTZA W = LocalTZA W'"
  shows "isDST W (Some d) = isDST W' (Some d)"
proof -
  have l: "LocalTime W = LocalTime W'" and u: "UTC W = UTC W'"
    using assms by (simp_all add: fun_eq_iff LocalTime_def UTC_def)
  have y: "getFullYear W = getFullYear W'"
    by (auto simp add: fun_eq_iff getFullYear_def l split: option.splits)
  have o: "getTimezoneOffset W = getTimezoneOffset W'"
    by (auto simp add: fun_eq_iff getTimezoneOffset_def l split: option.splits)
  have n: "new_Date_ymd W = new_Date_ymd W'"
    by (auto simp add: fun_eq_iff new_Date_ymd_def u split: option.splits)
  show ?thesis
    by (simp add: isDST_def y o n)
qed

text \<open>
  Mid-January and mid-July 2025 (12:00 UTC on the 15th), in processes whose zones are
  Chicago and UTC.
\<close>

lemma isDST_chicago_winter: "isDST chicago_process (Some (Some 1736942400000)) = False"
  by code_simp

lemma isDST_chicago_summer: "isDST chicago_process (Some (Some 1752580800000)) = True"
  by code_simp

lemma isDST_utc_summer: "isDST utc_container (Some (Some 1752580800000)) = False"
  by code_simp

lemma Chicago_offsets:
  "America_Chicago 1752580800000 = - 18000000" "America_Chicago 1736942400000 = - 21600000"
  by code_simp+

text \<open>
  The year 50 in Chicago, on local mean time all year: 15 January, 12:00 UTC. The
  constructor takes the year 50 for 1950.
\<close>

lemma year_50:
  "getFullYear chicago_process (Some (- 60588043200000)) = Some 50"
  "getTimezoneOffset chicago_process (Some (- 60588043200000)) = Some 350"
  "new_Date_ymd chicago_process (Some 50) 0 1 = Some (- 631130400000)"
  "new_Date_ymd chicago_process (Some 50) 6 1 = Some (- 615495600000)"
  "getTimezoneOffset chicago_process (Some (- 631130400000)) = Some 360"
  "getTimezoneOffset chicago_process (Some (- 615495600000)) = Some 300"
  by code_simp+

lemma isDST_year_50: "isDST chicago_process (Some (Some (- 60588043200000))) = True"
  by code_simp

lemma by_magnitude_year_50:
  "isDaylightSaving_by_magnitude chicago_process (- 60588043200000) = False"
  by code_simp

lemma by_magnitude_chicago_2025:
  "isDaylightSaving_by_magnitude chicago_process 1736942400000 = False"
  "isDaylightSaving_by_magnitude chicago_process 1752580800000 = True"
  by code_simp+

lemma getCurrentOffset_examples:
  "getCurrentOffset chicago_process = ''GMT-6''" "getCurrentOffset chicago_in_july = ''GMT-5''"
  by code_simp+

lemma isDST_on_the_clock:
  "isDST chicago_process None = False" "isDST chicago_in_july None = True"
  by code_simp+

section \<open>What the pool does\<close>

lemma on_connect_queue:
  "queryQueue (fst (on_connect W S c)) = queryQueue c @ [(Initializer, timezone_directive W)]"
  by (simp add: on_connect_def client_query_def)

lemma on_connect_left:
  "snd (on_connect W S c) = [accepts S (timezone_directive W)]"
  by (simp add: on_connect_def client_query_def)

lemma initialised_once_new: "initialised_once W (fst (on_connect W S \<lparr>queryQueue = []\<rparr>))"
  by (simp add: initialised_once_def on_connect_queue)

lemma pool_connect_reachable:
  assumes "reachable S"
  shows "fst (pool_connect W S p) = Inr (length (clients p))"
    and "clients (snd (pool_connect W S p)) =
           clients p @ [fst (on_connect W S \<lparr>queryQueue = []\<rparr>)]"
    and "unhandled (snd (pool_connect W S p)) =
           unhandled p @ [(length (clients p), accepts S (timezone_directive W))]"
    and "exited (snd (pool_connect W S p)) = exited p"
  using assms
  by (simp_all add: pool_connect_def Let_def split_beta on_connect_left)

lemma pool_connect_unreachable:
  "\<not> reachable S \<Longrightarrow> pool_connect W S p = (Inl ConnectionError, p)"
  by (simp add: pool_connect_def)

lemma initialised_once_caller_query:
  assumes "initialised_once W c"
  shows "initialised_once W (fst (client_query S c Caller text))"
  using assms
  by (cases "queryQueue c") (simp_all add: initialised_once_def client_query_def)

lemma initialised_once_count:
  assumes "initialised_once W c"
  shows "length (filter (\<lambda>q. fst q = Initializer) (queryQueue c)) = 1"
proof (cases "queryQueue c")
  case Nil
  with assms show ?thesis by (simp add: initialised_once_def)
next
  case (Cons e rest)
  with assms have e: "e = (Initializer, timezone_directive W)"
    and r: "list_all (\<lambda>q. fst q = Caller) rest"
    by (simp_all add: initialised_once_def)
  from r have "filter (\<lambda>q. fst q = Initializer) rest = []"
    by (induction rest) auto
  with Cons e show ?thesis by simp
qed

lemma running_step_keeps_initialised:
  assumes "list_all (initialised_once W) (clients p)"
  shows "list_all (initialised_once W) (clients (running_step W S p e))"
proof (cases e)
  case NewConnection
  show ?thesis
  proof (cases "reachable S")
    case True
    with assms NewConnection show ?thesis
      by (simp add: pool_connect_reachable initialised_once_new)
  next
    case False
    with assms NewConnection show ?thesis
      by (simp add: pool_connect_unreachable)
  qed
next
  case (CallerQuery i sql)
  show ?thesis
  proof (cases "i < length (clients p)")
    case True
    from assms True have "initialised_once W (clients p ! i)"
      by (simp add: list_all_length)
    then have "initialised_once W (fst (client_query S (clients p ! i) Caller sql))"
      by (rule initialised_once_caller_query)
    with assms True CallerQuery show ?thesis
      by (auto simp add: list_all_length nth_list_update)
  next
    case False
    with assms CallerQuery show ?thesis by simp
  qed
next
  case (DirectiveAnswered i)
  with assms show ?thesis by simp
qed

lemma step_keeps_initialised:
  assumes "list_all (initialised_once W) (clients p)"
  shows "list_all (initialised_once W) (clients (step W S p e))"
  using assms running_step_keeps_initialised[OF assms] by (simp add: step_def)

lemma run_keeps_initialised:
  "list_all (initialised_once W) (clients p) \<Longrightarrow>
   list_all (initialised_once W) (clients (run W S p es))"
proof (induction es arbitrary: p)
  case Nil
  then show ?case by simp
next
  case (Cons e es)
  from Cons.prems have "list_all (initialised_once W) (clients (step W S p e))"
    by (rule step_keeps_initialised)
  then show ?case using Cons.IH by simp
qed



section \<open>What the calls do to the heap\<close>

lemma untouched_iff:
  "untouched h h' = (allocated h \<le> allocated h' \<and> (\<forall>r<allocated h. cell h' r = cell h r))"
  by (auto simp add: untouched_def list_all_iff)

lemma untouched_refl: "untouched h h"
  by (simp add: untouched_iff)

lemma untouched_trans: "untouched h h' \<Longrightarrow> untouched h' h'' \<Longrightarrow> untouched h h''"
  by (auto simp add: untouched_iff)

lemma alloc_simps:
  "fst (alloc h v) = allocated h"
  "allocated (snd (alloc h v)) = allocated h + 1"
  "cell (snd (alloc h v)) r = (if r = allocated h then v else cell h r)"
  by (simp_all add: alloc_def)

lemma alloc_untouched: "untouched h (snd (alloc h v))"
  by (simp add: untouched_iff alloc_simps)

lemma isDST_call_heap:
  "snd (isDST_call W h (Some date)) =
     snd (alloc (snd (alloc h (new_Date_ymd W (getFullYear W (cell h date)) 0 1)))
            (new_Date_ymd W (getFullYear W (cell (snd (alloc h (new_Date_ymd W (getFullYear W (cell h date)) 0 1))) date)) 6 1))"
  by (simp add: isDST_call_def Let_def split_beta)

lemma isDST_call_Some_untouched: "untouched h (snd (isDST_call W h (Some date)))"
  unfolding isDST_call_heap
  by (rule untouched_trans[OF alloc_untouched alloc_untouched])

lemma isDST_call_Some_result:
  assumes "date < allocated h"
  shows "fst (isDST_call W h (Some date)) = isDST W (Some (cell h date))"
  using assms
  by (simp add: isDST_call_def isDST_def Let_def split_beta alloc_simps)

lemma isDST_call_None:
  "isDST_call W h None = isDST_call W (snd (alloc h (new_Date W))) (Some (allocated h))"
  by (simp add: isDST_call_def Let_def split_beta alloc_simps)

lemma isDST_call_None_result: "fst (isDST_call W h None) = isDST W None"
  unfolding isDST_call_None
  by (subst isDST_call_Some_result) (simp_all add: alloc_simps isDST_def)

lemma isDST_call_untouched: "untouched h (snd (isDST_call W h arg))"
proof (cases arg)
  case None
  show ?thesis unfolding None isDST_call_None
    by (rule untouched_trans[OF alloc_untouched isDST_call_Some_untouched])
next
  case (Some date)
  then show ?thesis by (simp add: isDST_call_Some_untouched)
qed

lemma getCurrentOffset_call_eq:
  "getCurrentOffset_call W h =
     (if fst (isDST_call W (snd (alloc h (new_Date W))) (Some (allocated h)))
      then ''GMT-5'' else ''GMT-6'',
      snd (isDST_call W (snd (alloc h (new_Date W))) (Some (allocated h))))"
  by (simp add: getCurrentOffset_call_def Let_def split_beta alloc_simps)

lemma getCurrentOffset_call_untouched: "untouched h (snd (getCurrentOffset_call W h))"
  unfolding getCurrentOffset_call_eq
  by (simp add: untouched_trans[OF alloc_untouched isDST_call_Some_untouched])

lemma getCurrentOffset_call_result:
  "fst (getCurrentOffset_call W h) = getCurrentOffset W"
  unfolding getCurrentOffset_call_eq
  by (simp add: isDST_call_Some_result alloc_simps getCurrentOffset_def Let_def)

section \<open>The claims\<close>

text \<open>
  C1. \<open>isDST\<close> is to tell, for every instant, whether Chicago's offset at the instant
  differs from Chicago's winter offset. The code asks the host's zone, not Chicago's:
  in a process whose zone is UTC it returns false at 2025-07-15T12:00:00Z, when
  Chicago's offset (-5 h) differs from its winter offset (-6 h). In a process whose
  zone is Chicago it returns false in mid-January 2025 and true in mid-July 2025.
\<close>

theorem isDST_reads_host_zone:
  "isDST utc_container (Some (Some 1752580800000)) = False \<and>
   America_Chicago 1752580800000 = - 18000000 \<and>
   America_Chicago 1736942400000 = - 21600000 \<and>
   isDST chicago_process (Some (Some 1736942400000)) = False \<and>
   isDST chicago_process (Some (Some 1752580800000)) = True"
  by (simp add: isDST_utc_summer Chicago_offsets isDST_chicago_winter isDST_chicago_summer)




text \<open>
  C3. On every physical connection the pool creates, the initializer issues exactly one
  statement, the directive \<open>SET timezone = '<zone>'\<close> with the configured zone name
  put between the quotes; it is issued when the connection is created, so it is the
  first statement of the connection's queue and runs before any statement of a caller,
  and later statements of callers add no further directive.
\<close>

theorem every_connection_initialised_once:
  "list_all (\<lambda>c. initialised_once W c \<and>
                 length (filter (\<lambda>q. fst q = Initializer) (queryQueue c)) = 1)
     (clients (run W S new_Pool es)) \<and>
   timezone_directive W = ''SET timezone = '' @ [CHR 0x27] @ TIMEZONE_index W @ [CHR 0x27]"
proof -
  have "list_all (initialised_once W) (clients (run W S new_Pool es))"
    by (rule run_keeps_initialised) (simp add: new_Pool_def)
  then show ?thesis
    using initialised_once_count[of W]
    by (auto simp add: list_all_iff timezone_directive_def)
qed

theorem every_connection_initialised_once_witness:
  "clients (run utc_container rejecting_server new_Pool
      [NewConnection, CallerQuery 0 ''SELECT 1'', NewConnection, CallerQuery 0 ''SELECT 2'']) =
     [\<lparr>queryQueue = [(Initializer, ''SET timezone = '' @ [CHR 0x27] @ ''America/Chicago'' @ [CHR 0x27]),
                     (Caller, ''SELECT 1''), (Caller, ''SELECT 2'')]\<rparr>,
      \<lparr>queryQueue = [(Initializer, ''SET timezone = '' @ [CHR 0x27] @ ''America/Chicago'' @ [CHR 0x27])]\<rparr>] \<and>
   list_all (initialised_once utc_container)
     (clients (run utc_container rejecting_server new_Pool
        [NewConnection, CallerQuery 0 ''SELECT 1'', NewConnection, CallerQuery 0 ''SELECT 2'']))"
proof -
  have r: "clients (run utc_container rejecting_server new_Pool
      [NewConnection, CallerQuery 0 ''SELECT 1'', NewConnection, CallerQuery 0 ''SELECT 2'']) =
     [\<lparr>queryQueue = [(Initializer, ''SET timezone = '' @ [CHR 0x27] @ ''America/Chicago'' @ [CHR 0x27]),
                     (Caller, ''SELECT 1''), (Caller, ''SELECT 2'')]\<rparr>,
      \<lparr>queryQueue = [(Initializer, ''SET timezone = '' @ [CHR 0x27] @ ''America/Chicago'' @ [CHR 0x27])]\<rparr>]"
    by (simp add: step_def new_Pool_def pool_connect_def rejecting_server_def on_connect_def
        client_query_def timezone_directive_def TIMEZONE_index_def utc_container_def)
  have "list_all (initialised_once utc_container)
     (clients (run utc_container rejecting_server new_Pool
        [NewConnection, CallerQuery 0 ''SELECT 1'', NewConnection, CallerQuery 0 ''SELECT 2'']))"
    using every_connection_initialised_once[of utc_container rejecting_server
        "[NewConnection, CallerQuery 0 ''SELECT 1'', NewConnection, CallerQuery 0 ''SELECT 2'']"]
    by (simp add: list_all_iff)
  with r show ?thesis by blast
qed

text \<open>
  C4. Every call to \<open>getCurrentOffset\<close> returns one of the two strings \<open>GMT-6\<close> and
  \<open>GMT-5\<close>, and the choice is \<open>isDST\<close> at the current instant: \<open>GMT-5\<close> when it
  holds, \<open>GMT-6\<close> otherwise.
\<close>

theorem getCurrentOffset_two_labels:
  "getCurrentOffset W \<in> {''GMT-6'', ''GMT-5''} \<and>
   (getCurrentOffset W = ''GMT-5'') = isDST W (Some (Some (now W))) \<and>
   (getCurrentOffset W = ''GMT-6'') = (\<not> isDST W (Some (Some (now W))))"
  by (simp add: getCurrentOffset_def new_Date_def Let_def)

text \<open>
  C5. \<open>formatCentralTime\<close> at 2025-12-23T21:45:00Z returns \<open>Dec 23, 2025, 3:45 PM\<close>:
  medium date, short time, no zone abbreviation. The space in front of \<open>PM\<close> is the
  one the runtime's locale data has; with a plain space the string is that literal.
\<close>

theorem formatCentralTime_at_example:
  "formatCentralTime P W (Some 1766526300000) =
     Inr (''Dec 23, 2025, 3:45'' @ period_space P @ ''PM'') \<and>
   formatCentralTime (P\<lparr>period_space := '' ''\<rparr>) W (Some 1766526300000) =
     Inr ''Dec 23, 2025, 3:45 PM''"
  by (simp add: formatCentralTime_Some Chicago_at_example format_pattern_def example_fields
      decimal_examples pad2_def month_abbr_def)

text \<open>
  C6, as stated, fails: \<open>toCentralTime\<close> does not give a fixed-width string for every
  instant. The year is printed with as many digits as it has, and time values reach
  the year 275760: on 1 January 10000 the string has 21 characters.
\<close>

theorem toCentralTime_year_10000:
  "toCentralTime node_icu utc_container (Some 253402387200000) = Inr ''01/01/10000, 18:00:00'' \<and>
   length ''01/01/10000, 18:00:00'' \<noteq> length ''MM/DD/YYYY, HH:MM:SS''"
  by (simp add: toCentralTime_Some node_icu_def Chicago_in_year_10000 format_pattern_def
      year_10000_fields decimal_examples pad2_def)

text \<open>
  C6, amended. For every instant whose year in Chicago has four digits (1000 to 9999),
  \<open>toCentralTime\<close> returns the 20 characters \<open>MM/DD/YYYY, HH:MM:SS\<close>: two-digit month,
  day, hour, minute and second of the instant in the zone, on a 24-hour clock (midnight
  is hour 00, or hour 24 on a runtime that resolves \<open>hour12: false\<close> to \<open>h24\<close>). At
  2025-12-23T21:45:00Z it returns \<open>12/23/2025, 15:45:00\<close>.
\<close>

theorem toCentralTime_fixed_width:
  assumes "1000 \<le> YearFromTime (t + America_Chicago t)"
    and "YearFromTime (t + America_Chicago t) \<le> 9999"
  shows "(\<exists>s. toCentralTime P W (Some t) = Inr s \<and> length s = 20 \<and>
              matches ''DD/DD/DDDD, DD:DD:DD'' s) \<and>
         toCentralTime P W (Some t) =
           (let l = t + America_Chicago t
            in Inr (pad2 (MonthFromTime l + 1) @ ''/'' @ pad2 (DateFromTime l) @ ''/'' @
                    decimal (nat (YearFromTime l)) @ '', '' @
                    pad2 (case hour12_false P of
                            h23 \<Rightarrow> HourFromTime l
                          | h24 \<Rightarrow> if HourFromTime l = 0 then 24 else HourFromTime l) @
                    '':'' @ pad2 (MinFromTime l) @ '':'' @ pad2 (SecFromTime l))) \<and>
         toCentralTime P W (Some 1766526300000) = Inr ''12/23/2025, 15:45:00''"
proof -
  define l where "l = t + America_Chicago t"
  define hh where "hh = (case hour12_false P of
      h23 \<Rightarrow> HourFromTime l | h24 \<Rightarrow> if HourFromTime l = 0 then 24 else HourFromTime l)"
  have y: "1000 \<le> nat (YearFromTime l)" "nat (YearFromTime l) < 10000"
    using assms unfolding l_def by simp_all
  have y1: "(if 1 \<le> YearFromTime l then YearFromTime l else 1 - YearFromTime l) = YearFromTime l"
    using assms unfolding l_def by simp
  have hb: "0 \<le> hh" "hh < 100"
    using HourFromTime_bounds[of l] unfolding hh_def by (cases "hour12_false P"; simp)+
  obtain a1 a2 where M: "pad2 (MonthFromTime l + 1) = [a1, a2]" "is_digit a1" "is_digit a2"
    using pad2_shape[of "MonthFromTime l + 1"] MonthFromTime_bounds[of l] by auto
  obtain b1 b2 where D: "pad2 (DateFromTime l) = [b1, b2]" "is_digit b1" "is_digit b2"
    using pad2_shape[of "DateFromTime l"] DateFromTime_bounds[of l] by auto
  obtain y1 y2 y3 y4 where Y: "decimal (nat (YearFromTime l)) = [y1, y2, y3, y4]"
      "is_digit y1" "is_digit y2" "is_digit y3" "is_digit y4"
    using decimal_4[OF y] by blast
  obtain h1 h2 where H: "pad2 hh = [h1, h2]" "is_digit h1" "is_digit h2"
    using pad2_shape[OF hb] by blast
  obtain m1 m2 where Mi: "pad2 (MinFromTime l) = [m1, m2]" "is_digit m1" "is_digit m2"
    using pad2_shape[of "MinFromTime l"] MinFromTime_bounds[of l] by auto
  obtain s1 s2 where S: "pad2 (SecFromTime l) = [s1, s2]" "is_digit s1" "is_digit s2"
    using pad2_shape[of "SecFromTime l"] SecFromTime_bounds[of l] by auto
  have f: "toCentralTime P W (Some t) =
      Inr (pad2 (MonthFromTime l + 1) @ ''/'' @ pad2 (DateFromTime l) @ ''/'' @
           decimal (nat (YearFromTime l)) @ '', '' @ pad2 hh @
           '':'' @ pad2 (MinFromTime l) @ '':'' @ pad2 (SecFromTime l))"
    unfolding toCentralTime_fields Let_def l_def[symmetric] hh_def[symmetric] y1 ..
  have shape: "\<exists>s. toCentralTime P W (Some t) = Inr s \<and> length s = 20 \<and>
      matches ''DD/DD/DDDD, DD:DD:DD'' s"
    unfolding f M(1) D(1) Y(1) H(1) Mi(1) S(1)
    using M(2,3) D(2,3) Y(2-) H(2,3) Mi(2,3) S(2,3) by simp
  show ?thesis
  proof (intro conjI)
    show "\<exists>s. toCentralTime P W (Some t) = Inr s \<and> length s = 20 \<and>
        matches ''DD/DD/DDDD, DD:DD:DD'' s"
      by (rule shape)
    show "toCentralTime P W (Some 1766526300000) = Inr ''12/23/2025, 15:45:00''"
      by (rule toCentralTime_at_example)
    show "toCentralTime P W (Some t) =
           (let l = t + America_Chicago t
            in Inr (pad2 (MonthFromTime l + 1) @ ''/'' @ pad2 (DateFromTime l) @ ''/'' @
                    decimal (nat (YearFromTime l)) @ '', '' @
                    pad2 (case hour12_false P of
                            h23 \<Rightarrow> HourFromTime l
                          | h24 \<Rightarrow> if HourFromTime l = 0 then 24 else HourFromTime l) @
                    '':'' @ pad2 (MinFromTime l) @ '':'' @ pad2 (SecFromTime l)))"
      unfolding Let_def l_def[symmetric] hh_def[symmetric] by (rule f)
  qed
qed

theorem toCentralTime_fixed_width_witness:
  "1000 \<le> YearFromTime (1766526300000 + America_Chicago 1766526300000) \<and>
   YearFromTime (1766526300000 + America_Chicago 1766526300000) \<le> 9999 \<and>
   toCentralTime node_icu utc_container (Some 1766526300000) = Inr ''12/23/2025, 15:45:00'' \<and>
   matches ''DD/DD/DDDD, DD:DD:DD'' ''12/23/2025, 15:45:00''"
proof -
  have a: "1000 \<le> YearFromTime (1766526300000 + America_Chicago 1766526300000)"
    and b: "YearFromTime (1766526300000 + America_Chicago 1766526300000) \<le> 9999"
    by (simp_all add: Chicago_at_example example_fields)
  from toCentralTime_fixed_width[OF a b, of node_icu utc_container]
  have e: "toCentralTime node_icu utc_container (Some 1766526300000) = Inr ''12/23/2025, 15:45:00''"
    and m: "\<exists>s. toCentralTime node_icu utc_container (Some 1766526300000) = Inr s \<and> length s = 20 \<and>
              matches ''DD/DD/DDDD, DD:DD:DD'' s"
    by blast+
  from m e have "matches ''DD/DD/DDDD, DD:DD:DD'' ''12/23/2025, 15:45:00''" by auto
  with a b e show ?thesis by blast
qed

text \<open>
  C7. \<open>isDST\<close> is to compare, for every instant, the instant's offset in the target
  zone with the more negative of the zone's offsets on 1 January and on 1 July of the
  instant's year, and to return true exactly when the instant's offset is smaller in
  magnitude. The code departs from that in two places. It takes all three offsets from
  the host's zone (the defect of C1): in a process whose zone is UTC it returns false at
  2025-07-15T12:00:00Z, where the comparison for Chicago gives true. And its reference
  dates are \<open>new Date(year, 0, 1)\<close> and \<open>new Date(year, 6, 1)\<close>, which read a year from
  0 to 99 as 1900 + year: in a process whose zone is Chicago it returns true on 15
  January of the year 50 (offset 350 min against 360 and 300 min in 1950), where the
  comparison within the year 50 gives false. In 2025, in a process whose zone is Chicago,
  the code and the comparison agree.
\<close>

theorem isDST_against_same_year_comparison:
  "isDST utc_container (Some (Some 1752580800000)) = False \<and>
   isDaylightSaving_by_magnitude chicago_process 1752580800000 = True \<and>
   isDST chicago_process (Some (Some (- 60588043200000))) = True \<and>
   isDaylightSaving_by_magnitude chicago_process (- 60588043200000) = False \<and>
   isDST chicago_process (Some (Some 1736942400000)) =
     isDaylightSaving_by_magnitude chicago_process 1736942400000 \<and>
   isDST chicago_process (Some (Some 1752580800000)) =
     isDaylightSaving_by_magnitude chicago_process 1752580800000"
  by (simp add: isDST_utc_summer isDST_chicago_winter isDST_chicago_summer isDST_year_50
      by_magnitude_year_50 by_magnitude_chicago_2025)

text \<open>
  C8, as stated, fails. \<open>getCurrentOffset\<close> is not the only operation that depends on
  the clock: called without an argument, \<open>isDST\<close> reads it (false in December 2025,
  true in July). And \<open>isDST\<close> does not return the same output for the same argument
  in every state of the process: at 2025-07-15T12:00:00Z it differs between a process
  whose zone is UTC and one whose zone is Chicago.
\<close>

theorem isDST_depends_on_clock_and_host:
  "now chicago_process \<noteq> now chicago_in_july \<and>
   isDST chicago_process None \<noteq> isDST chicago_in_july None \<and>
   isDST utc_container (Some (Some 1752580800000)) \<noteq>
     isDST chicago_process (Some (Some 1752580800000))"
proof -
  have "now chicago_process \<noteq> now chicago_in_july"
    by (simp add: chicago_in_july_def chicago_process_def)
  then show ?thesis
    by (simp add: isDST_on_the_clock isDST_utc_summer isDST_chicago_summer)
qed

text \<open>
  C8, amended. For every \<open>Date\<close> argument, a repeated call of \<open>toCentralTime\<close>, of
  \<open>formatCentralTime\<close> or of \<open>isDST\<close> with that argument returns the output of the
  first call, whatever the clock shows by then and whatever calls came in between. No
  call changes a \<open>Date\<close> object that exists (\<open>isDST\<close> and \<open>getCurrentOffset\<close> create
  objects of their own), and nothing else is written. \<open>getCurrentOffset\<close>, and
  \<open>isDST\<close> called without an argument, depend on wall-clock now.
\<close>

theorem repeated_calls_same_output:
  assumes "date < allocated h" and "untouched h h'"
  shows "untouched h (snd (toCentralTime_call P W h date)) \<and>
         untouched h (snd (formatCentralTime_call P W h date)) \<and>
         untouched h (snd (isDST_call W h arg)) \<and>
         untouched h (snd (getCurrentOffset_call W h)) \<and>
         fst (toCentralTime_call P W' h' date) = fst (toCentralTime_call P W h date) \<and>
         fst (formatCentralTime_call P W' h' date) = fst (formatCentralTime_call P W h date) \<and>
         fst (isDST_call (W\<lparr>now := n\<rparr>) h' (Some date)) = fst (isDST_call W h (Some date)) \<and>
         fst (isDST_call W h None) = isDST W (Some (Some (now W))) \<and>
         fst (getCurrentOffset_call W h) =
           (if isDST W (Some (Some (now W))) then ''GMT-5'' else ''GMT-6'')"
proof -
  from assms have d': "date < allocated h'" and c: "cell h' date = cell h date"
    by (auto simp add: untouched_iff)
  have t: "fst (toCentralTime_call P W' h' date) = fst (toCentralTime_call P W h date)"
    using toCentralTime_any_world[of P W' "cell h date" W]
    by (simp add: toCentralTime_call_def c)
  have f: "fst (formatCentralTime_call P W' h' date) = fst (formatCentralTime_call P W h date)"
    using formatCentralTime_any_world[of P W' "cell h date" W]
    by (simp add: formatCentralTime_call_def c)
  have i: "fst (isDST_call (W\<lparr>now := n\<rparr>) h' (Some date)) = fst (isDST_call W h (Some date))"
    using isDST_host_zone_only[of "W\<lparr>now := n\<rparr>" W "cell h date"]
    by (simp add: isDST_call_Some_result[OF d'] isDST_call_Some_result[OF assms(1)] c)
  have n: "fst (isDST_call W h None) = isDST W (Some (Some (now W)))"
    by (simp add: isDST_call_None_result isDST_def new_Date_def)
  have g: "fst (getCurrentOffset_call W h) =
      (if isDST W (Some (Some (now W))) then ''GMT-5'' else ''GMT-6'')"
    by (simp add: getCurrentOffset_call_result getCurrentOffset_def new_Date_def Let_def)
  have u: "untouched h (snd (toCentralTime_call P W h date))"
    "untouched h (snd (formatCentralTime_call P W h date))"
    by (simp_all add: toCentralTime_call_def formatCentralTime_call_def untouched_refl)
  from u isDST_call_untouched[of h W arg] getCurrentOffset_call_untouched[of h W] t f i n g
  show ?thesis by blast
qed

theorem repeated_calls_same_output_witness:
  "0 < allocated one_date \<and>
   untouched one_date (snd (isDST_call chicago_process one_date (Some 0))) \<and>
   LocalTZA chicago_in_july = LocalTZA chicago_process \<and>
   now chicago_in_july \<noteq> now chicago_process \<and>
   fst (isDST_call chicago_in_july (snd (isDST_call chicago_process one_date (Some 0))) (Some 0)) =
     fst (isDST_call chicago_process one_date (Some 0)) \<and>
   fst (isDST_call chicago_process one_date (Some 0)) = True \<and>
   fst (toCentralTime_call node_icu chicago_in_july
          (snd (isDST_call chicago_process one_date (Some 0))) 0) =
     fst (toCentralTime_call node_icu chicago_process one_date 0) \<and>
   fst (getCurrentOffset_call chicago_process one_date) = ''GMT-6'' \<and>
   fst (getCurrentOffset_call chicago_in_july one_date) = ''GMT-5''"
proof -
  let ?h1 = "snd (isDST_call chicago_process one_date (Some 0))"
  have a: "0 < allocated one_date" by (simp add: one_date_def)
  have v: "cell one_date 0 = Some 1752580800000" by (simp add: one_date_def)
  have z: "LocalTZA chicago_in_july = LocalTZA chicago_process"
    and k: "now chicago_in_july \<noteq> now chicago_process"
    and nw: "now chicago_process = 1766526300000" "now chicago_in_july = 1752580800000"
    by (simp_all add: chicago_in_july_def chicago_process_def)
  have zj: "isDST chicago_in_july (Some (Some 1752580800000)) = True"
    using isDST_host_zone_only[OF z, of "Some 1752580800000"] isDST_chicago_summer by simp
  have zw: "isDST chicago_process (Some (Some 1766526300000)) = False"
    using getCurrentOffset_examples(1)
    by (simp add: getCurrentOffset_def new_Date_def Let_def nw split: if_splits)
  note t0 = repeated_calls_same_output[OF a untouched_refl,
      where P = node_icu and W = chicago_process and arg = "Some 0" and W' = chicago_process
      and n = 1752580800000]
  from t0 have u: "untouched one_date ?h1" by blast
  note t1 = repeated_calls_same_output[OF a u,
      where P = node_icu and W = chicago_process and arg = "Some 0" and W' = chicago_in_july
      and n = 1752580800000]
  from t1 have r: "fst (isDST_call chicago_in_july ?h1 (Some 0)) =
      fst (isDST_call chicago_process one_date (Some 0))"
    unfolding chicago_in_july_def by blast
  have e: "fst (isDST_call chicago_process one_date (Some 0)) = True"
    by (simp add: isDST_call_Some_result[OF a] v isDST_chicago_summer)
  from t1 have c: "fst (toCentralTime_call node_icu chicago_in_july ?h1 0) =
      fst (toCentralTime_call node_icu chicago_process one_date 0)"
    by blast
  from t0 have g1: "fst (getCurrentOffset_call chicago_process one_date) = ''GMT-6''"
    by (simp add: nw zw)
  note t2 = repeated_calls_same_output[OF a untouched_refl,
      where P = node_icu and W = chicago_in_july and arg = "Some 0" and W' = chicago_in_july
      and n = 1752580800000]
  from t2 have g2: "fst (getCurrentOffset_call chicago_in_july one_date) = ''GMT-5''"
    by (simp add: nw zj)
  from a u z k r e c g1 g2 show ?thesis by blast
qed




text \<open>
  C10. \<open>nowInCentralTime\<close> converts nothing: it returns the current instant, the value
  of \<open>new Date()\<close>, whatever the host's zone and environment are.
\<close>

theorem nowInCentralTime_is_now:
  "nowInCentralTime W = new_Date W \<and> nowInCentralTime W = Some (now W) \<and>
   (now W = now W' \<longrightarrow> nowInCentralTime W = nowInCentralTime W')"
  by (simp add: nowInCentralTime_def new_Date_def)

theorem nowInCentralTime_is_now_witness:
  "now utc_container = now chicago_process \<and>
   LocalTZA utc_container \<noteq> LocalTZA chicago_process \<and>
   nowInCentralTime utc_container = nowInCentralTime chicago_process \<and>
   nowInCentralTime chicago_process = Some 1766526300000"
proof -
  have n: "now utc_container = now chicago_process"
    by (simp add: utc_container_def chicago_process_def)
  have "LocalTZA utc_container 1766526300000 True \<noteq> LocalTZA chicago_process 1766526300000 True"
    by (simp add: utc_container_def chicago_process_def LocalTZA_of_def Etc_UTC_def
        Chicago_at_example)
  then have z: "LocalTZA utc_container \<noteq> LocalTZA chicago_process" by metis
  have c: "now chicago_process = 1766526300000"
    by (simp add: chicago_process_def)
  have same: "nowInCentralTime utc_container = nowInCentralTime chicago_process"
    using nowInCentralTime_is_now [of utc_container chicago_process] n by blast
  have val: "nowInCentralTime chicago_process = Some (now chicago_process)"
    using nowInCentralTime_is_now [of chicago_process chicago_process] by blast
  from n z same val show ?thesis
    unfolding c by blast
qed

end
